theory Spec2Isabelle
  imports Main
begin

section \<open>Deferred and Promise (Deferred.h)\<close>

text \<open>
  A \<open>Deferred<T>\<close> and every \<open>Promise<T>\<close> taken from it hold a \<open>std::shared_ptr\<close> to one
  \<open>StateData\<close> object. The embedding keeps these objects in a heap indexed by addresses, so
  that handles which are copies of each other alias the same cell. Callbacks are
  \<open>std::function\<close> values: the closures that Deferred.h itself builds are constructors of
  the callback types below, and a callback supplied by client code is identified by a tag
  and records its invocation in a log. An exception leaving a function is the result
  \<open>Throws\<close>, carrying the heap as it was left.
\<close>

subsection \<open>Data\<close>

datatype PromiseState = PENDING | RESOLVED | REJECTED

text \<open>
  Thrown objects. Deferred.h throws \<open>std::runtime_error\<close>; handlers may throw any other
  class derived from \<open>std::exception\<close>, or an object of an unrelated type (\<open>throw 42\<close>),
  which a \<open>catch (std::exception e)\<close> clause does not catch.
\<close>

datatype exn =
    runtime_error string
  | std_exception string
  | foreign nat

fun derives_from_std_exception :: "exn \<Rightarrow> bool" where
  "derives_from_std_exception (runtime_error m) = True"
| "derives_from_std_exception (std_exception m) = True"
| "derives_from_std_exception (foreign k) = False"

text \<open>\<open>std::exception_ptr\<close> is nullable; \<open>None\<close> is the null pointer.\<close>

type_synonym exception_ptr = "exn option"

type_synonym addr = nat

text \<open>
  \<open>StateDataPtr\<close> is \<open>std::shared_ptr<StateData>\<close>; \<open>None\<close> is the empty pointer of a
  default-constructed \<open>Promise\<close>. A \<open>Deferred\<close> always holds a cell.
\<close>

type_synonym StateDataPtr = "addr option"
type_synonym Promise = StateDataPtr
type_synonym Deferred = addr

text \<open>
  What a handler given to \<open>thenPipe\<close> does when it is called: it throws, or it returns a
  \<open>Promise<Uout>\<close> that is a copy of an existing handle (possibly the invalid one), or one
  it has just made with the constructor \<open>Promise(T v)\<close> or with \<open>Promise::rejected(ep)\<close>.
\<close>

datatype 'v handler_result =
    raises exn
  | returns_copy Promise
  | returns_Promise 'v
  | returns_rejected exception_ptr

text \<open>
  \<open>Callback = std::function<void(T)>\<close> and
  \<open>ErrCallback = std::function<void(std::exception_ptr)>\<close>.
  \<^item> \<open>lambda_resolve dfd\<close> is \<open>[dfd](T v) { dfd.resolve(v); }\<close> (lines 143, 258, 285, 298);
  \<^item> \<open>lambda_reject dfd\<close> is \<open>[dfd](std::exception_ptr e) { dfd.reject(e); }\<close>
    (lines 144, 259, 268, 286, 299);
  \<^item> \<open>lambda_pipe_onDone dfd cbSuccess\<close> is the closure \<open>onDone\<close> of \<open>thenPipe\<close>
    (lines 255 and 282), \<open>lambda_pipe_onFail dfd cbFail\<close> the closure \<open>onFail\<close> of its
    two-handler overload (line 295);
  \<^item> \<open>lambda_then_onDone\<close> and \<open>lambda_then_onFail\<close> are the closures of \<open>then\<close>, whose
    handlers return a value or throw (\<open>Inl\<close>); \<open>None\<close> is a handler that was not supplied;
  \<^item> \<open>lambda_convert dfd conv\<close> is the closure of \<open>convert_cast\<close>, with the conversion
    \<open>conv\<close> of a value to the target type, which throws (\<open>Inl\<close>) when it fails.
\<close>

datatype 'v Callback =
    user_callback nat
  | lambda_resolve Deferred
  | lambda_pipe_onDone Deferred "'v \<Rightarrow> 'v handler_result"
  | lambda_then_onDone Deferred "('v \<Rightarrow> exn + 'v) option"
  | lambda_convert Deferred "'v \<Rightarrow> exn + 'v"

datatype 'v ErrCallback =
    user_errcallback nat
  | lambda_reject Deferred
  | lambda_pipe_onFail Deferred "exception_ptr \<Rightarrow> 'v handler_result"
  | lambda_then_onFail Deferred "(exception_ptr \<Rightarrow> exn + 'v) option"

text \<open>\<open>struct StateData\<close> (lines 62 to 95). \<open>T value\<close> is default-constructed unless given.\<close>

record 'v StateData =
  "value" :: 'v
  state :: PromiseState
  err_ptr :: exception_ptr
  resolveList :: "'v Callback list"
  rejectList :: "'v ErrCallback list"

datatype 'v event = called nat 'v | called_err nat exception_ptr

record 'v heap =
  cells :: "addr \<rightharpoonup> 'v StateData"
  fresh :: addr
  log :: "'v event list"

definition empty_heap :: "'v heap" where
  "empty_heap = \<lparr>cells = Map.empty, fresh = 0, log = []\<rparr>"

text \<open>Addresses are handed out in order; no cell lives at or above \<open>fresh\<close>.\<close>

definition heap_ok :: "'v heap \<Rightarrow> bool" where
  "heap_ok s \<longleftrightarrow> (\<forall>a. cells s a \<noteq> None \<longrightarrow> a < fresh s)"

subsection \<open>Results\<close>

text \<open>
  How a call ends: it returns, it throws, or it ends the process through
  \<open>std::terminate\<close>, which no caller sees return and no \<open>catch\<close> clause stops.
\<close>

datatype 'r completion = Returns 'r | Throws exn | Terminates

text \<open>
  A call yields \<open>None\<close> when callbacks nest deeper than the bound given to \<open>invoke\<close> below,
  or when it dereferences an address that holds no cell (which a \<open>shared_ptr\<close> owner
  never does).
\<close>

type_synonym ('r, 'v) outcome = "('r completion \<times> 'v heap) option"

fun and_then :: "('a, 'v) outcome \<Rightarrow> ('a \<Rightarrow> 'v heap \<Rightarrow> ('b, 'v) outcome) \<Rightarrow> ('b, 'v) outcome" where
  "and_then None k = None"
| "and_then (Some (Throws e, s)) k = Some (Throws e, s)"
| "and_then (Some (Terminates, s)) k = Some (Terminates, s)"
| "and_then (Some (Returns r, s)) k = k r s"

text \<open>
  \<open>try { body } catch (std::exception e) { handler }\<close>: only an exception whose class
  derives from \<open>std::exception\<close> reaches the handler; \<open>std::current_exception()\<close> there is the
  thrown object.
\<close>

fun try_catch :: "(unit, 'v) outcome \<Rightarrow> (exn \<Rightarrow> 'v heap \<Rightarrow> (unit, 'v) outcome) \<Rightarrow> (unit, 'v) outcome" where
  "try_catch None h = None"
| "try_catch (Some (Returns r, s)) h = Some (Returns r, s)"
| "try_catch (Some (Terminates, s)) h = Some (Terminates, s)"
| "try_catch (Some (Throws e, s)) h =
     (if derives_from_std_exception e then h e s else Some (Throws e, s))"

text \<open>
  A destructor is implicitly \<open>noexcept\<close>: an exception that would leave it ends the process.
\<close>

fun noexcept :: "('r, 'v) outcome \<Rightarrow> ('r, 'v) outcome" where
  "noexcept None = None"
| "noexcept (Some (Returns r, s)) = Some (Returns r, s)"
| "noexcept (Some (Throws e, s)) = Some (Terminates, s)"
| "noexcept (Some (Terminates, s)) = Some (Terminates, s)"

definition update_cell :: "addr \<Rightarrow> ('v StateData \<Rightarrow> 'v StateData) \<Rightarrow> 'v heap \<Rightarrow> 'v heap" where
  "update_cell a f s =
     (case cells s a of None \<Rightarrow> s | Some c \<Rightarrow> s\<lparr>cells := (cells s)(a \<mapsto> f c)\<rparr>)"

definition make_shared :: "'v StateData \<Rightarrow> 'v heap \<Rightarrow> addr \<times> 'v heap" where
  "make_shared c s = (fresh s, s\<lparr>cells := (cells s)(fresh s \<mapsto> c), fresh := Suc (fresh s)\<rparr>)"

subsection \<open>StateData\<close>

text \<open>The three constructors of \<open>StateData\<close> (lines 63 to 65).\<close>

definition StateData_T :: "'v \<Rightarrow> 'v StateData" where
  "StateData_T v =
     \<lparr>value = v, state = RESOLVED, err_ptr = None, resolveList = [], rejectList = []\<rparr>"

definition StateData_ep :: "exception_ptr \<Rightarrow> ('v::default) StateData" where
  "StateData_ep ep =
     \<lparr>value = default, state = REJECTED, err_ptr = ep, resolveList = [], rejectList = []\<rparr>"

definition StateData_0 :: "('v::default) StateData" where
  "StateData_0 =
     \<lparr>value = default, state = PENDING, err_ptr = None, resolveList = [], rejectList = []\<rparr>"

text \<open>
  Calling a stored \<open>std::function\<close> may run \<open>resolve\<close>, \<open>reject\<close> or \<open>done\<close> on another cell,
  whose callbacks are called in turn. The functions of this section take the way to call a
  callback as their first argument \<open>run\<close>; \<open>invoke\<close> below closes the recursion.
\<close>

datatype 'v invocation = call "'v Callback" 'v | call_err "'v ErrCallback" exception_ptr

type_synonym 'v invoker = "'v invocation \<Rightarrow> 'v heap \<Rightarrow> (unit, 'v) outcome"

text \<open>
  \<open>for (auto fn : resolveList) { fn(v); }\<close>, over the list as it is when the loop starts.
  While the loop runs the state is no longer PENDING, so \<open>done\<close> and \<open>fail\<close> add nothing to
  the list; it changes only if a callback settles this very cell again, which clears the
  vector under the running loop (undefined behaviour in C++; the model goes on with the
  callbacks that were registered).
\<close>

fun for_each :: "'v invoker \<Rightarrow> 'v Callback list \<Rightarrow> 'v \<Rightarrow> 'v heap \<Rightarrow> (unit, 'v) outcome" where
  "for_each run [] v s = Some (Returns (), s)"
| "for_each run (fn # fns) v s = and_then (run (call fn v) s) (\<lambda>_. for_each run fns v)"

fun for_each_err :: "'v invoker \<Rightarrow> 'v ErrCallback list \<Rightarrow> exception_ptr \<Rightarrow> 'v heap \<Rightarrow> (unit, 'v) outcome" where
  "for_each_err run [] ep s = Some (Returns (), s)"
| "for_each_err run (fn # fns) ep s = and_then (run (call_err fn ep) s) (\<lambda>_. for_each_err run fns ep)"

text \<open>\<open>StateData::resolve\<close> (lines 71 to 79) and \<open>StateData::reject\<close> (lines 80 to 88).\<close>

definition StateData_resolve :: "'v invoker \<Rightarrow> addr \<Rightarrow> 'v \<Rightarrow> 'v heap \<Rightarrow> (unit, 'v) outcome" where
  "StateData_resolve run a v s =
     (case cells s a of
        None \<Rightarrow> None
      | Some c \<Rightarrow>
          and_then
            (for_each run (resolveList c) v
               (update_cell a (\<lambda>c. c\<lparr>value := v, state := RESOLVED, rejectList := []\<rparr>) s))
            (\<lambda>_ s'. Some (Returns (), update_cell a (\<lambda>c. c\<lparr>resolveList := []\<rparr>) s')))"

definition StateData_reject :: "'v invoker \<Rightarrow> addr \<Rightarrow> exception_ptr \<Rightarrow> 'v heap \<Rightarrow> (unit, 'v) outcome" where
  "StateData_reject run a ep s =
     (case cells s a of
        None \<Rightarrow> None
      | Some c \<Rightarrow>
          and_then
            (for_each_err run (rejectList c) ep
               (update_cell a (\<lambda>c. c\<lparr>err_ptr := ep, state := REJECTED, resolveList := []\<rparr>) s))
            (\<lambda>_ s'. Some (Returns (), update_cell a (\<lambda>c. c\<lparr>rejectList := []\<rparr>) s')))"

subsection \<open>Deferred\<close>

text \<open>The constructors \<open>Deferred(T v)\<close>, \<open>Deferred(std::exception_ptr)\<close> and \<open>Deferred()\<close>.\<close>

definition Deferred_T :: "'v \<Rightarrow> 'v heap \<Rightarrow> Deferred \<times> 'v heap" where
  "Deferred_T v s = make_shared (StateData_T v) s"

definition Deferred_ep :: "exception_ptr \<Rightarrow> ('v::default) heap \<Rightarrow> Deferred \<times> 'v heap" where
  "Deferred_ep ep s = make_shared (StateData_ep ep) s"

definition Deferred_0 :: "('v::default) heap \<Rightarrow> Deferred \<times> 'v heap" where
  "Deferred_0 s = make_shared StateData_0 s"

text \<open>
  \<open>promise()\<close> (line 128), \<open>resolve(T v)\<close> (line 139), \<open>reject\<close> (line 148) and
  \<open>invalidate\<close> (lines 132 to 136) of \<open>Deferred\<close>.
\<close>

definition promise :: "Deferred \<Rightarrow> Promise" where
  "promise dfd = Some dfd"

definition Deferred_resolve :: "'v invoker \<Rightarrow> Deferred \<Rightarrow> 'v \<Rightarrow> 'v heap \<Rightarrow> (unit, 'v) outcome" where
  "Deferred_resolve run dfd v s = StateData_resolve run dfd v s"

definition Deferred_reject :: "'v invoker \<Rightarrow> Deferred \<Rightarrow> exception_ptr \<Rightarrow> 'v heap \<Rightarrow> (unit, 'v) outcome" where
  "Deferred_reject run dfd ep s = StateData_reject run dfd ep s"

definition invalidate :: "'v invoker \<Rightarrow> Deferred \<Rightarrow> 'v heap \<Rightarrow> (unit, 'v) outcome" where
  "invalidate run dfd s =
     (case cells s dfd of
        None \<Rightarrow> None
      | Some c \<Rightarrow>
          if state c = PENDING
          then Deferred_reject run dfd (Some (runtime_error ''Deferred object destroyed: 2'')) s
          else Some (Returns (), s))"

subsection \<open>Promise\<close>

text \<open>The default constructor \<open>Promise() {}\<close> (line 162) leaves \<open>m_data\<close> empty.\<close>

definition Promise_0 :: Promise where
  "Promise_0 = None"

text \<open>\<open>isValid\<close> (line 190).\<close>

definition isValid :: "Promise \<Rightarrow> bool" where
  "isValid p \<longleftrightarrow> p \<noteq> None"

text \<open>\<open>Promise::fail\<close> (lines 338 to 351) and \<open>Promise::done\<close> (lines 318 to 334).\<close>

definition fail :: "'v invoker \<Rightarrow> Promise \<Rightarrow> 'v ErrCallback option \<Rightarrow> 'v heap \<Rightarrow> (Promise, 'v) outcome" where
  "fail run p cbFail s =
     (case p of
        None \<Rightarrow> Some (Throws (runtime_error ''Promise invalid''), s)
      | Some a \<Rightarrow>
          (case cbFail of
             None \<Rightarrow> Some (Returns p, s)
           | Some f \<Rightarrow>
               (case cells s a of
                  None \<Rightarrow> None
                | Some c \<Rightarrow>
                    if state c = PENDING then
                      Some (Returns p, update_cell a (\<lambda>c. c\<lparr>rejectList := rejectList c @ [f]\<rparr>) s)
                    else if state c = REJECTED then
                      and_then (run (call_err f (err_ptr c)) s) (\<lambda>_ s'. Some (Returns p, s'))
                    else Some (Returns p, s))))"

definition "done" :: "'v invoker \<Rightarrow> Promise \<Rightarrow> 'v Callback option \<Rightarrow> 'v ErrCallback option \<Rightarrow> 'v heap \<Rightarrow> (Promise, 'v) outcome" where
  "done run p cbSuccess cbFail s =
     (case p of
        None \<Rightarrow> Some (Throws (runtime_error ''Promise invalid''), s)
      | Some a \<Rightarrow>
          and_then (case cbFail of None \<Rightarrow> Some (Returns p, s) | Some f \<Rightarrow> fail run p cbFail s)
            (\<lambda>_ s1.
               case cbSuccess of
                 None \<Rightarrow> Some (Returns p, s1)
               | Some f \<Rightarrow>
                   (case cells s1 a of
                      None \<Rightarrow> None
                    | Some c \<Rightarrow>
                        if state c = PENDING then
                          Some (Returns p, update_cell a (\<lambda>c. c\<lparr>resolveList := resolveList c @ [f]\<rparr>) s1)
                        else if state c = RESOLVED then
                          and_then (run (call f (value c)) s1) (\<lambda>_ s'. Some (Returns p, s'))
                        else Some (Returns p, s1))))"

text \<open>\<open>Deferred::resolve(Promise<T> v)\<close> (lines 141 to 146).\<close>

definition Deferred_resolve_Promise :: "'v invoker \<Rightarrow> Deferred \<Rightarrow> Promise \<Rightarrow> 'v heap \<Rightarrow> (unit, 'v) outcome" where
  "Deferred_resolve_Promise run dfd v s =
     and_then (done run v (Some (lambda_resolve dfd)) (Some (lambda_reject dfd)) s)
       (\<lambda>_ s'. Some (Returns (), s'))"

text \<open>The constructor \<open>Promise(T v)\<close> (lines 170 to 173) and \<open>Promise::rejected\<close> (lines 207 to 211).\<close>

definition Promise_T :: "'v \<Rightarrow> 'v heap \<Rightarrow> Promise \<times> 'v heap" where
  "Promise_T v s = (case Deferred_T v s of (dfd, s') \<Rightarrow> (promise dfd, s'))"

definition rejected :: "'v invoker \<Rightarrow> exception_ptr \<Rightarrow> ('v::default) heap \<Rightarrow> (Promise, 'v) outcome" where
  "rejected run ep s =
     (case Deferred_0 s of (dfd, s1) \<Rightarrow>
        and_then (Deferred_reject run dfd ep s1) (\<lambda>_ s'. Some (Returns (promise dfd), s')))"

text \<open>
  The bodies of the closures. \<open>pipe_result\<close> is the \<open>try\<close> block of \<open>onDone\<close> and \<open>onFail\<close> in
  \<open>thenPipe\<close> from the point where the handler has been called: the promise \<open>res\<close> it
  returned is subscribed to with \<open>res.done(onDone2, onFail2)\<close>, and an exception derived
  from \<open>std::exception\<close>, thrown by the handler or by \<open>res.done\<close>, rejects \<open>dfd\<close>. The
  cell of a promise that the handler made on the spot is owned by \<open>res\<close> alone and is freed
  when the block is left; in the model it stays in the heap, where nothing refers to it.
\<close>

definition pipe_result :: "'v invoker \<Rightarrow> Deferred \<Rightarrow> 'v handler_result \<Rightarrow> ('v::default) heap \<Rightarrow> (unit, 'v) outcome" where
  "pipe_result run dfd r s =
     try_catch
       (and_then
          (case r of
             raises e \<Rightarrow> Some (Throws e, s)
           | returns_copy res \<Rightarrow> Some (Returns res, s)
           | returns_Promise u \<Rightarrow> (case Promise_T u s of (res, s') \<Rightarrow> Some (Returns res, s'))
           | returns_rejected ep \<Rightarrow> rejected run ep s)
          (\<lambda>res s1.
             and_then (done run res (Some (lambda_resolve dfd)) (Some (lambda_reject dfd)) s1)
               (\<lambda>_ s'. Some (Returns (), s'))))
       (\<lambda>e s'. Deferred_reject run dfd (Some e) s')"

fun closure_body :: "'v invoker \<Rightarrow> 'v invocation \<Rightarrow> ('v::default) heap \<Rightarrow> (unit, 'v) outcome" where
  "closure_body run (call (user_callback t) v) s =
     Some (Returns (), s\<lparr>log := log s @ [called t v]\<rparr>)"
| "closure_body run (call (lambda_resolve dfd) v) s = Deferred_resolve run dfd v s"
| "closure_body run (call (lambda_pipe_onDone dfd cbSuccess) v) s =
     pipe_result run dfd (cbSuccess v) s"
| "closure_body run (call (lambda_then_onDone dfd cbSuccess) v) s =
     (case cbSuccess of
        None \<Rightarrow> Deferred_resolve run dfd v s
      | Some f \<Rightarrow>
          (case f v of
             Inl e \<Rightarrow> Deferred_reject run dfd (Some e) s
           | Inr u \<Rightarrow> Deferred_resolve run dfd u s))"
| "closure_body run (call (lambda_convert dfd conv) v) s =
     (case conv v of
        Inl e \<Rightarrow> Deferred_reject run dfd (Some e) s
      | Inr u \<Rightarrow> Deferred_resolve run dfd u s)"
| "closure_body run (call_err (user_errcallback t) ep) s =
     Some (Returns (), s\<lparr>log := log s @ [called_err t ep]\<rparr>)"
| "closure_body run (call_err (lambda_reject dfd) ep) s = Deferred_reject run dfd ep s"
| "closure_body run (call_err (lambda_pipe_onFail dfd cbFail) ep) s =
     pipe_result run dfd (cbFail ep) s"
| "closure_body run (call_err (lambda_then_onFail dfd cbFail) ep) s =
     (case cbFail of
        None \<Rightarrow> Deferred_reject run dfd ep s
      | Some f \<Rightarrow>
          (case f ep of
             Inl e \<Rightarrow> Deferred_reject run dfd (Some e) s
           | Inr u \<Rightarrow> Deferred_resolve run dfd u s))"

text \<open>
  \<open>invoke n\<close> calls a callback whose execution nests at most \<open>n\<close> calls of callbacks,
  itself included.
\<close>

primrec invoke :: "nat \<Rightarrow> ('v::default) invoker" where
  "invoke 0 = (\<lambda>c s. None)"
| "invoke (Suc n) = closure_body (invoke n)"

text \<open>\<open>Promise::thenPipe\<close>, with one handler (lines 249 to 274) and with two (lines 276 to 310).\<close>

definition thenPipe :: "'v invoker \<Rightarrow> Promise \<Rightarrow> ('v \<Rightarrow> 'v handler_result) \<Rightarrow> ('v::default) heap \<Rightarrow> (Promise, 'v) outcome" where
  "thenPipe run p cbSuccess s =
     (case p of
        None \<Rightarrow> rejected run (Some (runtime_error ''Promise invalid'')) s
      | Some a \<Rightarrow>
          (case Deferred_0 s of (dfd, s1) \<Rightarrow>
             and_then
               (done run p (Some (lambda_pipe_onDone dfd cbSuccess)) (Some (lambda_reject dfd)) s1)
               (\<lambda>_ s'. Some (Returns (promise dfd), s'))))"

definition thenPipe2 :: "'v invoker \<Rightarrow> Promise \<Rightarrow> ('v \<Rightarrow> 'v handler_result) \<Rightarrow> (exception_ptr \<Rightarrow> 'v handler_result) \<Rightarrow> ('v::default) heap \<Rightarrow> (Promise, 'v) outcome" where
  "thenPipe2 run p cbSuccess cbFail s =
     (case p of
        None \<Rightarrow> rejected run (Some (runtime_error ''Promise invalid'')) s
      | Some a \<Rightarrow>
          (case Deferred_0 s of (dfd, s1) \<Rightarrow>
             and_then
               (done run p (Some (lambda_pipe_onDone dfd cbSuccess))
                  (Some (lambda_pipe_onFail dfd cbFail)) s1)
               (\<lambda>_ s'. Some (Returns (promise dfd), s'))))"

subsection \<open>then and convert_cast\<close>

text \<open>
  Modelled from the spec: \<open>_doPromiseThen\<close>, to which \<open>Promise::then\<close> forwards, is not among
  the sources. The spec, section 4.3: \<open>then\<close> creates a new cell; when this promise settles,
  the matching handler is invoked with the value or error, and its return value settles
  the new promise as Resolved. If the handler itself throws, the new promise is Rejected
  with that error. If no handler is supplied for the branch that occurs, the new promise
  is rejected or resolved by forwarding the original outcome unchanged.
\<close>

definition doPromiseThen :: "'v invoker \<Rightarrow> Promise \<Rightarrow> ('v \<Rightarrow> exn + 'v) option \<Rightarrow> (exception_ptr \<Rightarrow> exn + 'v) option \<Rightarrow> ('v::default) heap \<Rightarrow> (Promise, 'v) outcome" where
  "doPromiseThen run inPromise cbSuccess cbFail s =
     (case Deferred_0 s of (dfd, s1) \<Rightarrow>
        and_then
          (done run inPromise (Some (lambda_then_onDone dfd cbSuccess))
             (Some (lambda_then_onFail dfd cbFail)) s1)
          (\<lambda>_ s'. Some (Returns (promise dfd), s')))"

text \<open>\<open>Promise::then\<close> (lines 230 to 233).\<close>

definition Promise_then :: "'v invoker \<Rightarrow> Promise \<Rightarrow> ('v \<Rightarrow> exn + 'v) option \<Rightarrow> (exception_ptr \<Rightarrow> exn + 'v) option \<Rightarrow> ('v::default) heap \<Rightarrow> (Promise, 'v) outcome" where
  "Promise_then run p cbSuccess cbFail s = doPromiseThen run p cbSuccess cbFail s"

text \<open>
  Modelled from the spec: the constructor of \<open>Promise<U>\<close> from a \<open>Promise<T>\<close>, which
  \<open>convert_cast\<close> calls, is not among the sources, and neither is the conversion of values
  (\<open>FB::variant::convert_cast\<close>), which is the parameter \<open>conv\<close>. The spec, section 4.3:
  \<open>convert_cast\<close> produces a promise that resolves to a type-converted value once this one
  resolves; conversion failure rejects the result. A rejection of this promise is passed
  on to the result.
\<close>

definition Promise_from :: "'v invoker \<Rightarrow> ('v \<Rightarrow> exn + 'v) \<Rightarrow> Promise \<Rightarrow> ('v::default) heap \<Rightarrow> (Promise, 'v) outcome" where
  "Promise_from run conv inPromise s =
     (case Deferred_0 s of (dfd, s1) \<Rightarrow>
        and_then
          (done run inPromise (Some (lambda_convert dfd conv)) (Some (lambda_reject dfd)) s1)
          (\<lambda>_ s'. Some (Returns (promise dfd), s')))"

text \<open>
  \<open>Promise::convert_cast<U>\<close> (lines 201 to 204) returns \<open>Promise<U>(*this)\<close>. Its template
  argument is \<open>same_type\<close> when \<open>U\<close> is \<open>T\<close>: the expression is then the copy constructor
  (line 167), and the promise returned shares the cell of this one; nothing is allocated,
  called or converted. It is \<open>other_type conv\<close> when \<open>U\<close> is another type, \<open>conv\<close> being the
  conversion of a \<open>T\<close> to a \<open>U\<close>: the expression is then the constructor \<open>Promise_from\<close>
  above.
\<close>

datatype 'v target = same_type | other_type "'v \<Rightarrow> exn + 'v"

definition convert_cast :: "'v invoker \<Rightarrow> 'v target \<Rightarrow> Promise \<Rightarrow> ('v::default) heap \<Rightarrow> (Promise, 'v) outcome" where
  "convert_cast run U p s =
     (case U of
        same_type \<Rightarrow> Some (Returns p, s)
      | other_type conv \<Rightarrow> Promise_from run conv p s)"

subsection \<open>Destruction\<close>

text \<open>
  The destructor \<open>~StateData\<close> (lines 66 to 70). \<open>std::shared_ptr\<close> runs it when the last
  owner of the cell is destroyed, whether that owner is a \<open>Deferred\<close> or a \<open>Promise\<close>;
  \<open>~Deferred() {}\<close> (line 113) and the implicit destructor of \<open>Promise\<close> do nothing but
  destroy \<open>m_data\<close>. The reference count is kept by the library, so the destructors below
  take it as the argument \<open>use_count\<close>: the number of \<open>Deferred\<close> and \<open>Promise\<close> objects that
  share the cell when the handle is destroyed, the handle itself and the copies captured
  in stored closures included. The cell is removed from the heap once its destructor has
  run; an exception that a rejection callback throws inside \<open>~StateData\<close> cannot leave the
  destructor and ends the process. Only these destructors free a cell: the handles that
  are local to a function of Deferred.h are not followed.
\<close>

definition StateData_dtor :: "'v invoker \<Rightarrow> addr \<Rightarrow> 'v heap \<Rightarrow> (unit, 'v) outcome" where
  "StateData_dtor run a s =
     (case cells s a of
        None \<Rightarrow> None
      | Some c \<Rightarrow>
          if state c = PENDING \<and> rejectList c \<noteq> []
          then StateData_reject run a (Some (runtime_error ''Deferred object destroyed: 1'')) s
          else Some (Returns (), s))"

definition shared_ptr_dtor :: "'v invoker \<Rightarrow> nat \<Rightarrow> addr \<Rightarrow> 'v heap \<Rightarrow> (unit, 'v) outcome" where
  "shared_ptr_dtor run use_count a s =
     (if use_count \<le> 1
      then and_then (noexcept (StateData_dtor run a s))
             (\<lambda>_ s'. Some (Returns (), s'\<lparr>cells := (cells s')(a := None)\<rparr>))
      else Some (Returns (), s))"

definition Deferred_dtor :: "'v invoker \<Rightarrow> nat \<Rightarrow> Deferred \<Rightarrow> 'v heap \<Rightarrow> (unit, 'v) outcome" where
  "Deferred_dtor run use_count dfd s = shared_ptr_dtor run use_count dfd s"

definition Promise_dtor :: "'v invoker \<Rightarrow> nat \<Rightarrow> Promise \<Rightarrow> 'v heap \<Rightarrow> (unit, 'v) outcome" where
  "Promise_dtor run use_count p s =
     (case p of None \<Rightarrow> Some (Returns (), s) | Some a \<Rightarrow> shared_ptr_dtor run use_count a s)"

subsection \<open>Values\<close>

text \<open>
  Deferred.cpp instantiates the templates at \<open>FB::variant\<close>. The examples below use a
  variant that is empty when default-constructed or holds an integer or a string.
\<close>

datatype variant = variant_empty | variant_int int | variant_string string

instantiation variant :: default
begin

definition default_variant :: variant where
  "default_variant = variant_empty"

instance ..

end

text \<open>Decimal notation of an integer, as \<open>std::to_string\<close> prints it.\<close>

fun digits :: "nat \<Rightarrow> string" where
  "digits n = (if n < 10 then [''0123456789'' ! n] else digits (n div 10) @ [''0123456789'' ! (n mod 10)])"

definition to_string :: "int \<Rightarrow> string" where
  "to_string i = (if i < 0 then CHR ''-'' # digits (nat (- i)) else digits (nat i))"

subsection \<open>Client programs\<close>

text \<open>
  The operations a client can apply to its handles, one after the other. \<open>perform n\<close>
  runs one of them with callbacks nesting at most \<open>n\<close> deep and gives the heap it leaves,
  however the operation ended. The destructors come with the reference count
  of the cell at that moment.
\<close>

datatype 'v operation =
    new_Deferred_0
  | new_Deferred_T 'v
  | new_Deferred_ep exception_ptr
  | new_Promise_T 'v
  | call_rejected exception_ptr
  | call_resolve Deferred 'v
  | call_resolve_Promise Deferred Promise
  | call_reject Deferred exception_ptr
  | call_invalidate Deferred
  | call_done Promise "'v Callback option" "'v ErrCallback option"
  | call_fail Promise "'v ErrCallback option"
  | call_thenPipe Promise "'v \<Rightarrow> 'v handler_result"
  | call_thenPipe2 Promise "'v \<Rightarrow> 'v handler_result" "exception_ptr \<Rightarrow> 'v handler_result"
  | call_then Promise "('v \<Rightarrow> exn + 'v) option" "(exception_ptr \<Rightarrow> exn + 'v) option"
  | call_convert_cast Promise "'v target"
  | delete_Deferred nat Deferred
  | delete_Promise nat Promise

fun perform :: "nat \<Rightarrow> ('v::default) operation \<Rightarrow> 'v heap \<Rightarrow> 'v heap option" where
  "perform n new_Deferred_0 s = Some (snd (Deferred_0 s))"
| "perform n (new_Deferred_T v) s = Some (snd (Deferred_T v s))"
| "perform n (new_Deferred_ep ep) s = Some (snd (Deferred_ep ep s))"
| "perform n (new_Promise_T v) s = Some (snd (Promise_T v s))"
| "perform n (call_rejected ep) s = map_option snd (rejected (invoke n) ep s)"
| "perform n (call_resolve dfd v) s = map_option snd (Deferred_resolve (invoke n) dfd v s)"
| "perform n (call_resolve_Promise dfd p) s =
     map_option snd (Deferred_resolve_Promise (invoke n) dfd p s)"
| "perform n (call_reject dfd ep) s = map_option snd (Deferred_reject (invoke n) dfd ep s)"
| "perform n (call_invalidate dfd) s = map_option snd (invalidate (invoke n) dfd s)"
| "perform n (call_done p cbSuccess cbFail) s =
     map_option snd (done (invoke n) p cbSuccess cbFail s)"
| "perform n (call_fail p cbFail) s = map_option snd (fail (invoke n) p cbFail s)"
| "perform n (call_thenPipe p cbSuccess) s = map_option snd (thenPipe (invoke n) p cbSuccess s)"
| "perform n (call_thenPipe2 p cbSuccess cbFail) s =
     map_option snd (thenPipe2 (invoke n) p cbSuccess cbFail s)"
| "perform n (call_then p cbSuccess cbFail) s =
     map_option snd (Promise_then (invoke n) p cbSuccess cbFail s)"
| "perform n (call_convert_cast p U) s = map_option snd (convert_cast (invoke n) U p s)"
| "perform n (delete_Deferred k dfd) s = map_option snd (Deferred_dtor (invoke n) k dfd s)"
| "perform n (delete_Promise k p) s = map_option snd (Promise_dtor (invoke n) k p s)"

fun perform_all :: "nat \<Rightarrow> ('v::default) operation list \<Rightarrow> 'v heap \<Rightarrow> 'v heap option" where
  "perform_all n [] s = Some s"
| "perform_all n (x # xs) s =
     (case perform n x s of None \<Rightarrow> None | Some s' \<Rightarrow> perform_all n xs s')"

text \<open>
  Cell \<open>a\<close> has been allocated and is not Pending: it is settled, or it has been destroyed.
\<close>

definition not_pending :: "addr \<Rightarrow> 'v heap \<Rightarrow> bool" where
  "not_pending a s \<longleftrightarrow>
     a < fresh s \<and> (case cells s a of None \<Rightarrow> True | Some c \<Rightarrow> state c \<noteq> PENDING)"

definition keeps :: "addr \<Rightarrow> ('r, 'v) outcome \<Rightarrow> bool" where
  "keeps a r \<longleftrightarrow> (case r of None \<Rightarrow> True | Some (_, s') \<Rightarrow> not_pending a s')"

definition keeper :: "addr \<Rightarrow> 'v invoker \<Rightarrow> bool" where
  "keeper a run \<longleftrightarrow> (\<forall>i s. not_pending a s \<longrightarrow> keeps a (run i s))"

text \<open>Handlers of the examples.\<close>

definition times_2 :: "variant \<Rightarrow> exn + variant" where
  "times_2 x = (case x of variant_int i \<Rightarrow> Inr (variant_int (i * 2)) | _ \<Rightarrow> Inr x)"




definition to_int :: "variant \<Rightarrow> exn + variant" where
  "to_int x =
     (case x of
        variant_int i \<Rightarrow> Inr x
      | _ \<Rightarrow> Inl (std_exception ''bad_variant_cast''))"

definition to_text :: "variant \<Rightarrow> exn + variant" where
  "to_text x =
     (case x of
        variant_int i \<Rightarrow> Inr (variant_string (to_string i))
      | variant_string t \<Rightarrow> Inr x
      | variant_empty \<Rightarrow> Inl (std_exception ''bad_variant_cast''))"





section \<open>Properties\<close>

subsection \<open>Evaluation\<close>

lemmas model_defs =
  Deferred_resolve_def StateData_resolve_def Deferred_reject_def StateData_reject_def
  done_def fail_def thenPipe_def thenPipe2_def pipe_result_def Deferred_0_def make_shared_def
  promise_def update_cell_def StateData_0_def StateData_T_def StateData_ep_def rejected_def
  Promise_T_def Deferred_T_def doPromiseThen_def Promise_then_def Promise_from_def
  convert_cast_def

lemma heap_ok_less: "heap_ok s \<Longrightarrow> cells s a = Some c \<Longrightarrow> a < fresh s"
  by (auto simp: heap_ok_def)






subsection \<open>A cell that has left Pending does not return to it\<close>

lemma keeps_simps [simp]:
  "keeps a None" "keeps a (Some (r, s)) = not_pending a s"
  by (simp_all add: keeps_def)

lemma keeps_and_then:
  "keeps a m \<Longrightarrow> (\<And>r s1. not_pending a s1 \<Longrightarrow> keeps a (k r s1)) \<Longrightarrow> keeps a (and_then m k)"
  by (cases "(m, k)" rule: and_then.cases) auto

lemma keeps_try_catch:
  "keeps a m \<Longrightarrow> (\<And>e s1. not_pending a s1 \<Longrightarrow> keeps a (h e s1)) \<Longrightarrow> keeps a (try_catch m h)"
  by (cases "(m, h)" rule: try_catch.cases) auto

lemma keeps_heap:
  "keeps a r \<Longrightarrow> map_option snd r = Some s' \<Longrightarrow> not_pending a s'"
  by (cases r) auto

lemma not_pending_update_cell:
  assumes "not_pending a s" and "\<And>c. state c \<noteq> PENDING \<Longrightarrow> state (f c) \<noteq> PENDING"
  shows "not_pending a (update_cell b f s)"
proof (cases "cells s b")
  case None
  then show ?thesis using assms(1) by (simp add: update_cell_def)
next
  case (Some c)
  show ?thesis
  proof (cases "b = a")
    case True
    then show ?thesis using assms Some by (simp add: not_pending_def update_cell_def)
  next
    case False
    then show ?thesis using assms(1) Some by (simp add: not_pending_def update_cell_def)
  qed
qed

lemma not_pending_make_shared:
  "not_pending a s \<Longrightarrow> not_pending a (snd (make_shared c s))"
  by (simp add: not_pending_def make_shared_def)

lemma not_pending_Deferred_0: "not_pending a s \<Longrightarrow> not_pending a (snd (Deferred_0 s))"
  by (simp add: Deferred_0_def not_pending_make_shared)

lemma not_pending_log [simp]: "not_pending a (s\<lparr>log := l\<rparr>) = not_pending a s"
  by (simp add: not_pending_def)

lemma keeps_for_each:
  "keeper a run \<Longrightarrow> not_pending a s \<Longrightarrow> keeps a (for_each run fns v s)"
  by (induction fns arbitrary: s) (auto simp: keeper_def intro!: keeps_and_then)

lemma keeps_for_each_err:
  "keeper a run \<Longrightarrow> not_pending a s \<Longrightarrow> keeps a (for_each_err run fns v s)"
  by (induction fns arbitrary: s) (auto simp: keeper_def intro!: keeps_and_then)

lemma keeps_resolve:
  "keeper a run \<Longrightarrow> not_pending a s \<Longrightarrow> keeps a (Deferred_resolve run b v s)"
  unfolding Deferred_resolve_def StateData_resolve_def
  by (auto split: option.splits intro!: keeps_and_then keeps_for_each not_pending_update_cell)

lemma keeps_reject:
  "keeper a run \<Longrightarrow> not_pending a s \<Longrightarrow> keeps a (Deferred_reject run b ep s)"
  unfolding Deferred_reject_def StateData_reject_def
  by (auto split: option.splits intro!: keeps_and_then keeps_for_each_err not_pending_update_cell)

lemma keeps_fail:
  "keeper a run \<Longrightarrow> not_pending a s \<Longrightarrow> keeps a (fail run p cbFail s)"
  unfolding fail_def
  by (auto simp: keeper_def split: option.splits intro!: keeps_and_then not_pending_update_cell)

lemma keeps_done:
  "keeper a run \<Longrightarrow> not_pending a s \<Longrightarrow> keeps a (done run p cbSuccess cbFail s)"
  unfolding done_def
  by (auto simp: keeper_def split: option.splits
      intro!: keeps_and_then keeps_fail not_pending_update_cell)

lemma keeps_rejected:
  "keeper a run \<Longrightarrow> not_pending a s \<Longrightarrow> keeps a (rejected run ep s)"
  unfolding rejected_def
  by (auto split: prod.splits intro!: keeps_and_then keeps_reject dest: not_pending_Deferred_0)

lemma keeps_pipe_result:
  assumes "keeper a run" "not_pending a s"
  shows "keeps a (pipe_result run dfd r s)"
proof -
  have sub: "keeps a (and_then (done run res (Some (lambda_resolve dfd)) (Some (lambda_reject dfd)) s1)
               (\<lambda>_ s'. Some (Returns (), s')))" if "not_pending a s1" for res s1
    by (rule keeps_and_then[OF keeps_done[OF assms(1) that]]) simp
  have first: "keeps a (case r of
             raises e \<Rightarrow> Some (Throws e, s)
           | returns_copy res \<Rightarrow> Some (Returns res, s)
           | returns_Promise u \<Rightarrow> (case Promise_T u s of (res, s') \<Rightarrow> Some (Returns res, s'))
           | returns_rejected ep \<Rightarrow> rejected run ep s)"
  proof (cases r)
    case (returns_Promise u)
    then show ?thesis using not_pending_make_shared[OF assms(2), of "StateData_T u"]
      by (auto simp: Promise_T_def Deferred_T_def split: prod.splits)
  qed (use assms keeps_rejected in simp_all)
  show ?thesis unfolding pipe_result_def
    by (intro keeps_try_catch keeps_and_then first sub keeps_reject assms(1))
qed

lemma keeps_closure_body:
  assumes "keeper a run" "not_pending a s"
  shows "keeps a (closure_body run i s)"
proof (cases i)
  case (call cb v)
  show ?thesis
  proof (cases cb)
    case (lambda_then_onDone dfd h)
    then show ?thesis using call assms
      by (auto split: option.splits sum.splits intro: keeps_resolve keeps_reject)
  next
    case (lambda_convert dfd h)
    then show ?thesis using call assms
      by (auto split: option.splits sum.splits intro: keeps_resolve keeps_reject)
  qed (use call assms in \<open>simp_all add: keeps_resolve keeps_pipe_result\<close>)
next
  case (call_err cb ep)
  show ?thesis
  proof (cases cb)
    case (lambda_then_onFail dfd h)
    then show ?thesis using call_err assms
      by (auto split: option.splits sum.splits intro: keeps_resolve keeps_reject)
  qed (use call_err assms in \<open>simp_all add: keeps_reject keeps_pipe_result\<close>)
qed

lemma keeper_invoke: "keeper a (invoke n)"
proof (induction n)
  case 0
  then show ?case by (simp add: keeper_def)
next
  case (Suc n)
  have "keeps a (closure_body (invoke n) i s)" if "not_pending a s" for i and s :: "'a heap"
    by (rule keeps_closure_body[OF Suc that])
  then show ?case by (simp add: keeper_def)
qed


lemma keeps_shared_ptr_dtor:
  assumes "keeper a run" "not_pending a s"
  shows "keeps a (shared_ptr_dtor run u b s)"
proof -
  have D: "keeps a (StateData_dtor run b s)"
    unfolding StateData_dtor_def using keeps_reject[OF assms, unfolded Deferred_reject_def] assms(2)
    by (simp split: option.splits)
  have R: "not_pending a (s1\<lparr>cells := (cells s1)(b := None)\<rparr>)" if "not_pending a s1" for s1 :: "'a heap"
    using that by (simp add: not_pending_def)
  have N: "keeps a (noexcept (StateData_dtor run b s))"
    using D by (cases "StateData_dtor run b s" rule: noexcept.cases) simp_all
  show ?thesis unfolding shared_ptr_dtor_def using assms(2)
    by (auto intro!: keeps_and_then N R)
qed

lemma not_pending_perform:
  assumes "not_pending a s" "perform n x s = Some s'"
  shows "not_pending a s'"
proof -
  note k = keeper_invoke[of a n]
  show ?thesis
  proof (cases x)
    case new_Deferred_0
    then show ?thesis using assms not_pending_Deferred_0[of a s] by auto
  next
    case (new_Deferred_T v)
    then show ?thesis using assms not_pending_make_shared[of a s] by (auto simp: Deferred_T_def)
  next
    case (new_Deferred_ep ep)
    then show ?thesis using assms not_pending_make_shared[of a s] by (auto simp: Deferred_ep_def)
  next
    case (new_Promise_T v)
    then show ?thesis using assms not_pending_make_shared[of a s "StateData_T v"]
      by (auto simp: Promise_T_def Deferred_T_def split: prod.splits)
  next
    case (call_rejected ep)
    show ?thesis
      by (rule keeps_heap[OF keeps_rejected[OF k assms(1)]]) (use assms(2) call_rejected in simp)
  next
    case (call_resolve dfd v)
    show ?thesis
      by (rule keeps_heap[OF keeps_resolve[OF k assms(1)]]) (use assms(2) call_resolve in simp)
  next
    case (call_resolve_Promise dfd p)
    have K: "keeps a (Deferred_resolve_Promise (invoke n) dfd p s)"
      unfolding Deferred_resolve_Promise_def
      by (rule keeps_and_then[OF keeps_done[OF k assms(1)]]) simp
    show ?thesis
      by (rule keeps_heap[OF K]) (use assms(2) call_resolve_Promise in simp)
  next
    case (call_reject dfd ep)
    show ?thesis
      by (rule keeps_heap[OF keeps_reject[OF k assms(1)]]) (use assms(2) call_reject in simp)
  next
    case (call_invalidate dfd)
    have K: "keeps a (invalidate (invoke n) dfd s)"
      unfolding invalidate_def using keeps_reject[OF k assms(1)] assms(1)
      by (simp split: option.splits)
    show ?thesis
      by (rule keeps_heap[OF K]) (use assms(2) call_invalidate in simp)
  next
    case (call_done p cbSuccess cbFail)
    show ?thesis
      by (rule keeps_heap[OF keeps_done[OF k assms(1)]]) (use assms(2) call_done in simp)
  next
    case (call_fail p cbFail)
    show ?thesis
      by (rule keeps_heap[OF keeps_fail[OF k assms(1)]]) (use assms(2) call_fail in simp)
  next
    case (call_thenPipe p cbSuccess)
    have K: "keeps a (thenPipe (invoke n) p cbSuccess s)"
      unfolding thenPipe_def using keeps_rejected[OF k assms(1)] not_pending_Deferred_0[OF assms(1)]
      by (auto split: option.splits prod.splits intro!: keeps_and_then keeps_done[OF k])
    show ?thesis
      by (rule keeps_heap[OF K]) (use assms(2) call_thenPipe in simp)
  next
    case (call_thenPipe2 p cbSuccess cbFail)
    have K: "keeps a (thenPipe2 (invoke n) p cbSuccess cbFail s)"
      unfolding thenPipe2_def using keeps_rejected[OF k assms(1)] not_pending_Deferred_0[OF assms(1)]
      by (auto split: option.splits prod.splits intro!: keeps_and_then keeps_done[OF k])
    show ?thesis
      by (rule keeps_heap[OF K]) (use assms(2) call_thenPipe2 in simp)
  next
    case (call_then p cbSuccess cbFail)
    have K: "keeps a (Promise_then (invoke n) p cbSuccess cbFail s)"
      unfolding Promise_then_def doPromiseThen_def using not_pending_Deferred_0[OF assms(1)]
      by (auto split: prod.splits intro!: keeps_and_then keeps_done[OF k])
    show ?thesis
      by (rule keeps_heap[OF K]) (use assms(2) call_then in simp)
  next
    case (call_convert_cast p U)
    have K: "keeps a (convert_cast (invoke n) U p s)"
    proof (cases U)
      case same_type
      then show ?thesis using assms(1) by (simp add: convert_cast_def)
    next
      case (other_type conv)
      then show ?thesis
        unfolding convert_cast_def Promise_from_def using not_pending_Deferred_0[OF assms(1)]
        by (auto split: prod.splits intro!: keeps_and_then keeps_done[OF k])
    qed
    show ?thesis
      by (rule keeps_heap[OF K]) (use assms(2) call_convert_cast in simp)
  next
    case (delete_Deferred u dfd)
    show ?thesis
      by (rule keeps_heap[OF keeps_shared_ptr_dtor[OF k assms(1)]])
        (use assms(2) delete_Deferred in \<open>simp add: Deferred_dtor_def\<close>)
  next
    case (delete_Promise u p)
    show ?thesis
    proof (cases p)
      case None
      then show ?thesis using assms delete_Promise by (auto simp: Promise_dtor_def)
    next
      case (Some b)
      show ?thesis
        by (rule keeps_heap[OF keeps_shared_ptr_dtor[OF k assms(1)]])
          (use assms(2) delete_Promise Some in \<open>simp add: Promise_dtor_def\<close>)
    qed
  qed
qed

lemma not_pending_perform_all:
  "not_pending a s \<Longrightarrow> perform_all n xs s = Some s' \<Longrightarrow> not_pending a s'"
  by (induction xs arbitrary: s) (auto split: option.splits dest: not_pending_perform)

subsection \<open>Chaining through a returned promise\<close>









subsection \<open>The claims\<close>

text \<open>
  C1. The claim: once a cell has left Pending it never changes again, and a later
  \<open>resolve\<close> or \<open>reject\<close> leaves state, value and error as they are. \<open>StateData::resolve\<close>
  and \<open>StateData::reject\<close> do not test the state (it is their callers \<open>invalidate\<close> and
  \<open>~StateData\<close> that do), so a later call assigns again: resolving with 1 and then with 2
  leaves the value 2, and rejecting a resolved cell leaves it Rejected.
\<close>

theorem settle_once_counterexample:
  "Deferred_resolve (invoke 0) 0 (variant_int 1) (snd (Deferred_0 empty_heap)) =
     Some (Returns (),
       \<lparr>cells = [0 \<mapsto> \<lparr>value = variant_int 1, state = RESOLVED, err_ptr = None,
                        resolveList = [], rejectList = []\<rparr>], fresh = 1, log = []\<rparr>)
   \<and> Deferred_resolve (invoke 0) 0 (variant_int 2)
       \<lparr>cells = [0 \<mapsto> \<lparr>value = variant_int 1, state = RESOLVED, err_ptr = None,
                        resolveList = [], rejectList = []\<rparr>], fresh = 1, log = []\<rparr> =
     Some (Returns (),
       \<lparr>cells = [0 \<mapsto> \<lparr>value = variant_int 2, state = RESOLVED, err_ptr = None,
                        resolveList = [], rejectList = []\<rparr>], fresh = 1, log = []\<rparr>)
   \<and> Deferred_reject (invoke 0) 0 (Some (runtime_error ''late''))
       \<lparr>cells = [0 \<mapsto> \<lparr>value = variant_int 1, state = RESOLVED, err_ptr = None,
                        resolveList = [], rejectList = []\<rparr>], fresh = 1, log = []\<rparr> =
     Some (Returns (),
       \<lparr>cells = [0 \<mapsto> \<lparr>value = variant_int 1, state = REJECTED,
                        err_ptr = Some (runtime_error ''late''),
                        resolveList = [], rejectList = []\<rparr>], fresh = 1, log = []\<rparr>)"
  by (simp add: model_defs empty_heap_def default_variant_def)

text \<open>
  C1, amended. A cell that has left Pending is not Pending again after any sequence of
  operations (it stays settled until it is destroyed). A later \<open>resolve(v)\<close> on it is not
  ignored: it sets the state to Resolved and the value to \<open>v\<close> and leaves the error; a later
  \<open>reject(ep)\<close> sets the state to Rejected and the error to \<open>ep\<close> and leaves the value. With
  both callback lists empty, as a completed settlement leaves them, neither calls a
  callback.
\<close>

theorem settled_cell_not_pending_again_but_overwritten:
  assumes "heap_ok s" and "cells s a = Some c" and "state c \<noteq> PENDING"
  shows "(\<forall>n ops s'. perform_all n ops s = Some s' \<longrightarrow>
            (case cells s' a of None \<Rightarrow> True | Some c' \<Rightarrow> state c' \<noteq> PENDING))
       \<and> (resolveList c = [] \<and> rejectList c = [] \<longrightarrow>
            Deferred_resolve run a v s =
              Some (Returns (), s\<lparr>cells := (cells s)(a \<mapsto> c\<lparr>value := v, state := RESOLVED\<rparr>)\<rparr>)
          \<and> Deferred_reject run a ep s =
              Some (Returns (), s\<lparr>cells := (cells s)(a \<mapsto> c\<lparr>err_ptr := ep, state := REJECTED\<rparr>)\<rparr>))"
proof (intro conjI allI impI)
  fix n ops s'
  assume run: "perform_all n ops s = Some s'"
  have "not_pending a s"
    using assms heap_ok_less[OF assms(1,2)] by (simp add: not_pending_def)
  then have "not_pending a s'"
    using run by (rule not_pending_perform_all)
  then show "case cells s' a of None \<Rightarrow> True | Some c' \<Rightarrow> state c' \<noteq> PENDING"
    by (simp add: not_pending_def)
next
  assume empty: "resolveList c = [] \<and> rejectList c = []"
  then have eq: "c\<lparr>value := v, state := RESOLVED, rejectList := [], resolveList := []\<rparr> =
      c\<lparr>value := v, state := RESOLVED\<rparr>"
    by (cases c) simp
  show "Deferred_resolve run a v s =
      Some (Returns (), s\<lparr>cells := (cells s)(a \<mapsto> c\<lparr>value := v, state := RESOLVED\<rparr>)\<rparr>)"
    using assms(2) empty by (simp add: model_defs eq)
next
  assume empty: "resolveList c = [] \<and> rejectList c = []"
  then have eq: "c\<lparr>err_ptr := ep, state := REJECTED, resolveList := [], rejectList := []\<rparr> =
      c\<lparr>err_ptr := ep, state := REJECTED\<rparr>"
    by (cases c) simp
  show "Deferred_reject run a ep s =
      Some (Returns (), s\<lparr>cells := (cells s)(a \<mapsto> c\<lparr>err_ptr := ep, state := REJECTED\<rparr>)\<rparr>)"
    using assms(2) empty by (simp add: model_defs eq)
qed

theorem settled_cell_not_pending_again_but_overwritten_witness:
  "heap_ok (snd (Deferred_T (variant_int 1) empty_heap))
   \<and> cells (snd (Deferred_T (variant_int 1) empty_heap)) 0 = Some (StateData_T (variant_int 1))
   \<and> state (StateData_T (variant_int 1)) \<noteq> PENDING
   \<and> perform_all 1
       [call_resolve 0 (variant_int 2), call_reject 0 (Some (runtime_error ''late'')),
        call_done (Some 0) (Some (user_callback 7)) (Some (user_errcallback 8))]
       (snd (Deferred_T (variant_int 1) empty_heap)) =
     Some \<lparr>cells = [0 \<mapsto> \<lparr>value = variant_int 2, state = REJECTED,
                              err_ptr = Some (runtime_error ''late''),
                              resolveList = [], rejectList = []\<rparr>],
           fresh = 1, log = [called_err 8 (Some (runtime_error ''late''))]\<rparr>
   \<and> Deferred_resolve (invoke 0) 0 (variant_int 2) (snd (Deferred_T (variant_int 1) empty_heap)) =
     Some (Returns (), snd (Deferred_T (variant_int 2) empty_heap))"
proof -
  let ?s = "snd (Deferred_T (variant_int 1) (empty_heap :: variant heap))"
  let ?ops = "[call_resolve 0 (variant_int 2), call_reject 0 (Some (runtime_error ''late'')),
        call_done (Some 0) (Some (user_callback 7)) (Some (user_errcallback 8))]"
  have h1: "heap_ok ?s"
    by (simp add: heap_ok_def model_defs empty_heap_def)
  have h2: "cells ?s 0 = Some (StateData_T (variant_int 1))"
    by (simp add: model_defs empty_heap_def)
  have h3: "state (StateData_T (variant_int 1)) \<noteq> PENDING"
    by (simp add: StateData_T_def)
  have run: "perform_all 1 ?ops ?s =
     Some \<lparr>cells = [0 \<mapsto> \<lparr>value = variant_int 2, state = REJECTED,
                              err_ptr = Some (runtime_error ''late''),
                              resolveList = [], rejectList = []\<rparr>],
           fresh = 1, log = [called_err 8 (Some (runtime_error ''late''))]\<rparr>"
    by (simp add: model_defs empty_heap_def)
  have eq: "?s\<lparr>cells := (cells ?s)(0 \<mapsto> (StateData_T (variant_int 1))\<lparr>value := variant_int 2, state := RESOLVED\<rparr>)\<rparr>
      = snd (Deferred_T (variant_int 2) empty_heap)"
    by (simp add: model_defs empty_heap_def)
  have h4: "resolveList (StateData_T (variant_int 1)) = [] \<and> rejectList (StateData_T (variant_int 1)) = []"
    by (simp add: StateData_T_def)
  from settled_cell_not_pending_again_but_overwritten
         [OF h1 h2 h3, where run = "invoke 0" and v = "variant_int 2"] h4
  have "Deferred_resolve (invoke 0) 0 (variant_int 2) ?s =
      Some (Returns (), ?s\<lparr>cells := (cells ?s)(0 \<mapsto> (StateData_T (variant_int 1))\<lparr>value := variant_int 2, state := RESOLVED\<rparr>)\<rparr>)"
    by blast
  then have "Deferred_resolve (invoke 0) 0 (variant_int 2) ?s =
      Some (Returns (), snd (Deferred_T (variant_int 2) empty_heap))"
    by (simp only: eq)
  with h1 h2 h3 run show ?thesis by blast
qed








text \<open>
  C4. \<open>then\<close> on a resolved promise, with a success handler that returns \<open>u\<close> for the stored
  value, returns a promise on a new cell that is resolved with \<open>u\<close>; nothing else changes.
\<close>

theorem then_resolves_to_handler_value:
  assumes "heap_ok s" and "cells s a = Some c" and "state c = RESOLVED"
    and "cbSuccess (value c) = Inr u"
  shows "Promise_then (invoke (Suc n)) (Some a) (Some cbSuccess) cbFail s =
      Some (Returns (Some (fresh s)),
        s\<lparr>cells := (cells s)(fresh s \<mapsto> StateData_T u), fresh := Suc (fresh s)\<rparr>)"
  using assms heap_ok_less[OF assms(1,2)] by (simp add: model_defs)

theorem then_resolves_to_handler_value_witness:
  "heap_ok (snd (Deferred_T (variant_int 5) empty_heap))
   \<and> cells (snd (Deferred_T (variant_int 5) empty_heap)) 0 = Some (StateData_T (variant_int 5))
   \<and> times_2 (variant_int 5) = Inr (variant_int 10)
   \<and> Promise_then (invoke 1) (Some 0) (Some times_2) None
       (snd (Deferred_T (variant_int 5) empty_heap)) =
     Some (Returns (Some 1),
       \<lparr>cells = [0 \<mapsto> StateData_T (variant_int 5), 1 \<mapsto> StateData_T (variant_int 10)],
        fresh = 2, log = []\<rparr>)"
proof -
  let ?s = "snd (Deferred_T (variant_int 5) (empty_heap :: variant heap))"
  have h1: "heap_ok ?s"
    by (simp add: heap_ok_def model_defs empty_heap_def)
  have h2: "cells ?s 0 = Some (StateData_T (variant_int 5))"
    by (simp add: model_defs empty_heap_def)
  have h3: "state (StateData_T (variant_int 5)) = RESOLVED"
    by (simp add: StateData_T_def)
  have h4: "times_2 (value (StateData_T (variant_int 5))) = Inr (variant_int 10)"
    by (simp add: times_2_def StateData_T_def)
  have "Promise_then (invoke 1) (Some 0) (Some times_2) None ?s =
     Some (Returns (Some 1),
       \<lparr>cells = [0 \<mapsto> StateData_T (variant_int 5), 1 \<mapsto> StateData_T (variant_int 10)],
        fresh = 2, log = []\<rparr>)"
    using then_resolves_to_handler_value
            [where cbSuccess = times_2 and n = 0 and cbFail = None, OF h1 h2 h3 h4]
    by (simp add: Deferred_T_def make_shared_def empty_heap_def)
  with h1 h2 h4 show ?thesis by (simp add: StateData_T_def)
qed









text \<open>
  C7. \<open>convert_cast\<close> on a resolved promise does not throw, and the promise it returns is
  resolved with the converted value when the conversion of the stored value succeeds and
  rejected with the exception of the conversion when it fails. To the type of the promise
  itself the conversion is the identity and cannot fail: the promise returned is a copy,
  on the same resolved cell, and the heap is unchanged. To another type the promise
  returned is on a new cell, resolved with the converted value or rejected with the
  exception of the conversion, and nothing else changes.
\<close>

theorem convert_cast_resolves_or_rejects:
  assumes "heap_ok s" and "cells s a = Some c" and "state c = RESOLVED"
  shows "convert_cast run same_type (Some a) s = Some (Returns (Some a), s)
       \<and> (conv (value c) = Inr u \<longrightarrow>
            convert_cast (invoke (Suc n)) (other_type conv) (Some a) s =
              Some (Returns (Some (fresh s)),
                s\<lparr>cells := (cells s)(fresh s \<mapsto> StateData_T u), fresh := Suc (fresh s)\<rparr>))
       \<and> (conv (value c) = Inl e \<longrightarrow>
            convert_cast (invoke (Suc n)) (other_type conv) (Some a) s =
              Some (Returns (Some (fresh s)),
                s\<lparr>cells := (cells s)(fresh s \<mapsto> StateData_ep (Some e)),
                  fresh := Suc (fresh s)\<rparr>))"
  using assms heap_ok_less[OF assms(1,2)] by (simp add: model_defs)

theorem convert_cast_resolves_or_rejects_witness:
  "heap_ok (snd (Deferred_T (variant_int 7) empty_heap))
   \<and> cells (snd (Deferred_T (variant_int 7) empty_heap)) 0 = Some (StateData_T (variant_int 7))
   \<and> convert_cast (invoke 1) same_type (Some 0) (snd (Deferred_T (variant_int 7) empty_heap)) =
       Some (Returns (Some 0), snd (Deferred_T (variant_int 7) empty_heap))
   \<and> to_text (variant_int 7) = Inr (variant_string ''7'')
   \<and> convert_cast (invoke 1) (other_type to_text) (Some 0)
       (snd (Deferred_T (variant_int 7) empty_heap)) =
       Some (Returns (Some 1),
         \<lparr>cells = [0 \<mapsto> StateData_T (variant_int 7), 1 \<mapsto> StateData_T (variant_string ''7'')],
          fresh = 2, log = []\<rparr>)
   \<and> heap_ok (snd (Deferred_T (variant_string ''abc'') empty_heap))
   \<and> to_int (variant_string ''abc'') = Inl (std_exception ''bad_variant_cast'')
   \<and> convert_cast (invoke 1) (other_type to_int) (Some 0)
       (snd (Deferred_T (variant_string ''abc'') empty_heap)) =
       Some (Returns (Some 1),
         \<lparr>cells = [0 \<mapsto> StateData_T (variant_string ''abc''),
                   1 \<mapsto> StateData_ep (Some (std_exception ''bad_variant_cast''))],
          fresh = 2, log = []\<rparr>)"
proof -
  let ?s = "snd (Deferred_T (variant_int 7) (empty_heap :: variant heap))"
  let ?t = "snd (Deferred_T (variant_string ''abc'') (empty_heap :: variant heap))"
  have s1: "heap_ok ?s" and t1: "heap_ok ?t"
    by (simp_all add: heap_ok_def model_defs empty_heap_def)
  have s2: "cells ?s 0 = Some (StateData_T (variant_int 7))"
    and t2: "cells ?t 0 = Some (StateData_T (variant_string ''abc''))"
    by (simp_all add: model_defs empty_heap_def)
  have s3: "state (StateData_T (variant_int 7)) = RESOLVED"
    and t3: "state (StateData_T (variant_string ''abc'')) = RESOLVED"
    by (simp_all add: StateData_T_def)
  have s4: "to_text (value (StateData_T (variant_int 7))) = Inr (variant_string ''7'')"
    and t4: "to_int (value (StateData_T (variant_string ''abc''))) =
      Inl (std_exception ''bad_variant_cast'')"
    by (simp_all add: to_text_def to_int_def to_string_def StateData_T_def)
  note at_s = convert_cast_resolves_or_rejects
         [OF s1 s2 s3, where conv = to_text and u = "variant_string ''7''" and n = 0
            and run = "invoke 1"]
  from at_s have same: "convert_cast (invoke 1) same_type (Some 0) ?s = Some (Returns (Some 0), ?s)"
    by blast
  from at_s s4
  have "convert_cast (invoke (Suc 0)) (other_type to_text) (Some 0) ?s =
      Some (Returns (Some (fresh ?s)),
        ?s\<lparr>cells := (cells ?s)(fresh ?s \<mapsto> StateData_T (variant_string ''7'')),
          fresh := Suc (fresh ?s)\<rparr>)"
    by blast
  then have a: "convert_cast (invoke 1) (other_type to_text) (Some 0) ?s =
       Some (Returns (Some 1),
         \<lparr>cells = [0 \<mapsto> StateData_T (variant_int 7), 1 \<mapsto> StateData_T (variant_string ''7'')],
          fresh = 2, log = []\<rparr>)"
    by (simp add: Deferred_T_def make_shared_def empty_heap_def)
  from convert_cast_resolves_or_rejects
         [OF t1 t2 t3, where conv = to_int and e = "std_exception ''bad_variant_cast''" and n = 0] t4
  have "convert_cast (invoke (Suc 0)) (other_type to_int) (Some 0) ?t =
      Some (Returns (Some (fresh ?t)),
        ?t\<lparr>cells := (cells ?t)(fresh ?t \<mapsto> StateData_ep (Some (std_exception ''bad_variant_cast''))),
          fresh := Suc (fresh ?t)\<rparr>)"
    by blast
  then have b: "convert_cast (invoke 1) (other_type to_int) (Some 0) ?t =
       Some (Returns (Some 1),
         \<lparr>cells = [0 \<mapsto> StateData_T (variant_string ''abc''),
                   1 \<mapsto> StateData_ep (Some (std_exception ''bad_variant_cast''))],
          fresh = 2, log = []\<rparr>)"
    by (simp add: Deferred_T_def make_shared_def empty_heap_def)
  have s4': "to_text (variant_int 7) = Inr (variant_string ''7'')"
    and t4': "to_int (variant_string ''abc'') = Inl (std_exception ''bad_variant_cast'')"
    using s4 t4 by (simp_all add: StateData_T_def)
  from s1 s2 same s4' a t1 t4' b show ?thesis by (intro conjI)
qed

text \<open>
  C8. A \<open>Deferred\<close> constructed from \<open>v\<close> is already resolved: \<open>done\<close> on its promise calls
  the success callback with \<open>v\<close> before it returns, once, and does not store it: the heap
  it leaves differs only by that one entry of the log.
\<close>

theorem done_on_pre_resolved_calls_once:
  "done (invoke (Suc n)) (promise (fst (Deferred_T v s))) (Some (user_callback t)) None
       (snd (Deferred_T v s)) =
     Some (Returns (promise (fst (Deferred_T v s))),
           (snd (Deferred_T v s))\<lparr>log := log s @ [called t v]\<rparr>)
   \<and> cells (snd (Deferred_T v s)) (fst (Deferred_T v s)) = Some (StateData_T v)
   \<and> resolveList (StateData_T v) = []"
  by (simp add: model_defs)

text \<open>
  C9. \<open>done\<close> and \<open>fail\<close> on a promise that is not valid throw
  \<open>std::runtime_error("Promise invalid")\<close>, an exception the caller can catch, and leave
  the heap as it is: no callback is called or stored.
\<close>

theorem invalid_promise_done_fail_throw:
  "\<not> isValid p \<Longrightarrow>
     done run p cbSuccess cbFail s = Some (Throws (runtime_error ''Promise invalid''), s)
   \<and> fail run p cbFail s = Some (Throws (runtime_error ''Promise invalid''), s)"
  by (simp add: isValid_def done_def fail_def)

theorem invalid_promise_done_fail_throw_witness:
  "\<not> isValid Promise_0
   \<and> done (invoke 1) Promise_0 (Some (user_callback 0)) (Some (user_errcallback 1))
       (empty_heap :: variant heap) =
     Some (Throws (runtime_error ''Promise invalid''), empty_heap)
   \<and> fail (invoke 1) Promise_0 (Some (user_errcallback 1)) (empty_heap :: variant heap) =
     Some (Throws (runtime_error ''Promise invalid''), empty_heap)"
proof -
  have h: "\<not> isValid Promise_0"
    by (simp add: isValid_def Promise_0_def)
  from invalid_promise_done_fail_throw [OF h] h show ?thesis by blast
qed

text \<open>
  C10. On a Rejected cell, \<open>done\<close> with a success callback and no failure callback returns
  the same promise and leaves the heap as it is, whatever calling a callback would do;
  so does \<open>fail\<close> on a Resolved cell.
\<close>

theorem done_on_rejected_fail_on_resolved_no_effect:
  assumes "cells s a = Some c"
  shows "(state c = REJECTED \<longrightarrow>
            done run (Some a) (Some f) None s = Some (Returns (Some a), s))
       \<and> (state c = RESOLVED \<longrightarrow>
            fail run (Some a) (Some g) s = Some (Returns (Some a), s))"
  using assms by (simp add: done_def fail_def)

theorem done_on_rejected_fail_on_resolved_no_effect_witness:
  "cells (snd (Deferred_ep (Some (runtime_error ''no'')) (empty_heap :: variant heap))) 0 =
     Some (StateData_ep (Some (runtime_error ''no'')))
   \<and> state (StateData_ep (Some (runtime_error ''no'')) :: variant StateData) = REJECTED
   \<and> done (invoke 1) (Some 0) (Some (user_callback 7)) None
       (snd (Deferred_ep (Some (runtime_error ''no'')) (empty_heap :: variant heap))) =
     Some (Returns (Some 0), snd (Deferred_ep (Some (runtime_error ''no'')) empty_heap))
   \<and> cells (snd (Deferred_T (variant_int 5) empty_heap)) 0 = Some (StateData_T (variant_int 5))
   \<and> state (StateData_T (variant_int 5)) = RESOLVED
   \<and> fail (invoke 1) (Some 0) (Some (user_errcallback 8))
       (snd (Deferred_T (variant_int 5) empty_heap)) =
     Some (Returns (Some 0), snd (Deferred_T (variant_int 5) empty_heap))"
proof -
  have r1: "cells (snd (Deferred_ep (Some (runtime_error ''no'')) (empty_heap :: variant heap))) 0 =
     Some (StateData_ep (Some (runtime_error ''no'')))"
    by (simp add: Deferred_ep_def make_shared_def empty_heap_def)
  have r2: "state (StateData_ep (Some (runtime_error ''no'')) :: variant StateData) = REJECTED"
    by (simp add: StateData_ep_def)
  have t1: "cells (snd (Deferred_T (variant_int 5) empty_heap)) 0 = Some (StateData_T (variant_int 5))"
    by (simp add: Deferred_T_def make_shared_def empty_heap_def)
  have t2: "state (StateData_T (variant_int 5)) = RESOLVED"
    by (simp add: StateData_T_def)
  from done_on_rejected_fail_on_resolved_no_effect
         [OF r1, where run = "invoke 1" and f = "user_callback 7" and g = "user_errcallback 8"] r2
  have d: "done (invoke 1) (Some 0) (Some (user_callback 7)) None
       (snd (Deferred_ep (Some (runtime_error ''no'')) (empty_heap :: variant heap))) =
     Some (Returns (Some 0), snd (Deferred_ep (Some (runtime_error ''no'')) empty_heap))"
    by blast
  from done_on_rejected_fail_on_resolved_no_effect
         [OF t1, where run = "invoke 1" and f = "user_callback 7" and g = "user_errcallback 8"] t2
  have f: "fail (invoke 1) (Some 0) (Some (user_errcallback 8))
       (snd (Deferred_T (variant_int 5) empty_heap)) =
     Some (Returns (Some 0), snd (Deferred_T (variant_int 5) empty_heap))"
    by blast
  from r1 r2 d t1 t2 f show ?thesis by (intro conjI)
qed

end
